theory Spec2Isabelle
  imports Main "HOL-Library.Sublist"
begin

section \<open>Python strings\<close>

text \<open>
  Python \<^verbatim>\<open>str\<close> values are modelled as \<^typ>\<open>string\<close>. The functions below are the
  string operations the tools in \<^verbatim>\<open>app/ppt_gen/tools_ppt.py\<close> and the driver in
  \<^verbatim>\<open>app/ppt_gen/ppt_generator_agent.py\<close> apply to them.
\<close>

text \<open>\<^verbatim>\<open>needle in hay\<close>: substring test. The empty needle occurs in every string.\<close>

fun str_in :: "string \<Rightarrow> string \<Rightarrow> bool" where
  "str_in needle [] = (needle = [])"
| "str_in needle (c # cs) = (prefix needle (c # cs) \<or> str_in needle cs)"

text \<open>\<^verbatim>\<open>s.endswith(suffix)\<close>.\<close>

definition endswith :: "string \<Rightarrow> string \<Rightarrow> bool" where
  "endswith s sfx = (length sfx \<le> length s \<and> drop (length s - length sfx) s = sfx)"

text \<open>\<^verbatim>\<open>s.replace('\\', '/')\<close>: every backslash becomes a forward slash.\<close>

definition replace_backslash :: "string \<Rightarrow> string" where
  "replace_backslash s = map (\<lambda>c. if c = CHR 0x5C then CHR ''/'' else c) s"

text \<open>\<^verbatim>\<open>s.split('\n')\<close> and \<^verbatim>\<open>'\n'.join(lines)\<close>.\<close>

fun split_nl :: "string \<Rightarrow> string list" where
  "split_nl [] = [[]]"
| "split_nl (c # cs) =
     (if c = CHR ''\<newline>'' then [] # split_nl cs
      else (case split_nl cs of
              [] \<Rightarrow> [[c]]
            | l # ls \<Rightarrow> (c # l) # ls))"

fun join_nl :: "string list \<Rightarrow> string" where
  "join_nl [] = []"
| "join_nl [l] = l"
| "join_nl (l # l' # ls) = l @ CHR ''\<newline>'' # join_nl (l' # ls)"

text \<open>Decimal rendering of a natural number, as an f-string renders an \<^verbatim>\<open>int\<close>.\<close>

fun show_nat :: "nat \<Rightarrow> string" where
  "show_nat n =
     (if n < 10 then [''0123456789'' ! n]
      else show_nat (n div 10) @ [''0123456789'' ! (n mod 10)])"

text \<open>
  \<^verbatim>\<open>re.sub(r'\.save\([^)]*\)', repl, s)\<close> for a replacement text \<open>repl\<close> without
  backslashes (so that it is inserted literally). Scanning from the left, a match starts
  where the text reads \<^verbatim>\<open>.save(\<close>, runs over every character that is not a closing
  parenthesis and ends with the first closing parenthesis; where there is none the
  position does not match and the character is kept. Matches do not overlap: the scan
  resumes after the closing parenthesis.
\<close>

function re_sub_save :: "string \<Rightarrow> string \<Rightarrow> string" where
  "re_sub_save repl [] = []"
| "re_sub_save repl (c # cs) =
     (if prefix ''.save('' (c # cs) then
        (case dropWhile (\<lambda>x. x \<noteq> CHR '')'') (drop 6 (c # cs)) of
           [] \<Rightarrow> c # re_sub_save repl cs
         | _ # after \<Rightarrow> repl @ re_sub_save repl after)
      else c # re_sub_save repl cs)"
  by pat_completeness auto
termination
proof (relation "measure (\<lambda>(repl, s). length s)")
  fix repl :: string and c cs x after
  assume "dropWhile (\<lambda>x. x \<noteq> CHR '')'') (drop 6 (c # cs)) = x # after"
  then have "length (x # after) \<le> length (drop 6 (c # cs))"
    by (metis length_dropWhile_le)
  then show "((repl, after), (repl, c # cs)) \<in> measure (\<lambda>(repl, s). length s)"
    by simp
qed simp_all

section \<open>Paths\<close>

text \<open>
  The tools build their paths with \<^verbatim>\<open>pathlib\<close>. A path is modelled as \<^verbatim>\<open>PurePosixPath\<close>
  holds it: an anchor (empty for a relative path, one slash, or two slashes when the text
  starts with exactly two) and the components, in which empty components and single dots
  are dropped and \<^verbatim>\<open>..\<close> is kept.
\<close>

record path =
  anchor :: string
  parts :: "string list"

text \<open>\<^verbatim>\<open>s.split('/')\<close> and \<^verbatim>\<open>'/'.join(components)\<close>.\<close>

fun split_slash :: "string \<Rightarrow> string list" where
  "split_slash [] = [[]]"
| "split_slash (c # cs) =
     (if c = CHR ''/'' then [] # split_slash cs
      else (case split_slash cs of
              [] \<Rightarrow> [[c]]
            | l # ls \<Rightarrow> (c # l) # ls))"

fun join_slash :: "string list \<Rightarrow> string" where
  "join_slash [] = []"
| "join_slash [l] = l"
| "join_slash (l # l' # ls) = l @ CHR ''/'' # join_slash (l' # ls)"

text \<open>\<^verbatim>\<open>Path(s)\<close>.\<close>

definition parse_path :: "string \<Rightarrow> path" where
  "parse_path s =
     \<lparr>anchor = (if prefix ''//'' s \<and> \<not> prefix ''///'' s then ''//''
                else if prefix ''/'' s then ''/'' else []),
      parts = filter (\<lambda>component. component \<noteq> [] \<and> component \<noteq> ''.'') (split_slash s)\<rparr>"

text \<open>\<^verbatim>\<open>str(p)\<close>: the path without anchor and components is written as a dot.\<close>

definition path_str :: "path \<Rightarrow> string" where
  "path_str p =
     (if anchor p = [] \<and> parts p = [] then ''.'' else anchor p @ join_slash (parts p))"

text \<open>\<^verbatim>\<open>p / s\<close>: an absolute segment replaces the path, a relative one is appended.\<close>

definition joinpath :: "path \<Rightarrow> string \<Rightarrow> path" where
  "joinpath p s =
     (let q = parse_path s in
      if anchor q \<noteq> [] then q else \<lparr>anchor = anchor p, parts = parts p @ parts q\<rparr>)"


section \<open>The world the tools act on\<close>

text \<open>
  The tools create directories, copy and write files and write log records. The world
  holds the directories that exist and the files with their contents, both under the
  text of their paths, and the log.
\<close>

datatype log_level = INFO | WARNING | ERROR

record world =
  dirs :: "string list"
  files :: "string \<rightharpoonup> string"
  log :: "(log_level \<times> string) list"

definition logger_info :: "string \<Rightarrow> world \<Rightarrow> world" where
  "logger_info msg w = w\<lparr>log := log w @ [(INFO, msg)]\<rparr>"

definition logger_warning :: "string \<Rightarrow> world \<Rightarrow> world" where
  "logger_warning msg w = w\<lparr>log := log w @ [(WARNING, msg)]\<rparr>"

definition logger_error :: "string \<Rightarrow> world \<Rightarrow> world" where
  "logger_error msg w = w\<lparr>log := log w @ [(ERROR, msg)]\<rparr>"

section \<open>validate_ppt_code\<close>

text \<open>
  What \<^verbatim>\<open>ast.parse(code)\<close> does: it returns, raises \<^verbatim>\<open>SyntaxError\<close> with a line number
  (possibly \<^verbatim>\<open>None\<close>) and a message, or raises another exception with its text. The
  parser belongs to the Python standard library and is a parameter of the model.
\<close>

datatype parse_result =
  Parsed
| SyntaxError "nat option" string
| OtherException string

definition show_lineno :: "nat option \<Rightarrow> string" where
  "show_lineno l = (case l of None \<Rightarrow> ''None'' | Some n \<Rightarrow> show_nat n)"

text \<open>
  The dictionary returned by \<^verbatim>\<open>validate_ppt_code\<close>. The two return sites do not have the
  same keys: a key that a return site leaves out is \<open>None\<close>.
\<close>

record validation_results =
  syntax_valid :: bool
  imports_template :: "bool option"
  imports_pptx :: "bool option"
  uses_template_system :: "bool option"
  creates_presentation :: bool
  saves_presentation :: bool
  has_slides :: bool
  template_theme_selected :: "bool option"
  uses_raw_pptx :: "bool option"
  errors :: "string list"
  warnings :: "string list"

definition themes :: "string list" where
  "themes = [''business'', ''tech'', ''creative'', ''corporate'']"

definition template_methods :: "string list" where
  "template_methods =
     [''create_title_slide'', ''create_content_slide'', ''create_section_slide'',
      ''create_comparison_slide'', ''create_conclusion_slide'', ''create_thank_you_slide'',
      ''create_image_slide'', ''create_image_content_slide'',
      ''create_image_comparison_slide'']"

definition problematic_patterns :: "string list" where
  "problematic_patterns =
     [''Visual note:'', ''Image suggestion:'', ''supporting image'', ''image located at'',
      ''assets/image_'', ''project_images/'', ''.jpg'', ''.png'']"

definition pattern_warning :: "string \<Rightarrow> string" where
  "pattern_warning pattern =
     ''WARNING: Found '' @ [CHR 0x27] @ pattern @ [CHR 0x27] @
     '' in code - images should use image slide methods, not text references''"

definition missing_import_error :: string where
  "missing_import_error =
     ''CRITICAL: Missing template import. Must include: from ppt_templates import create_template''"

definition missing_template_error :: string where
  "missing_template_error =
     ''CRITICAL: Must use template system. Include: ppt = create_template('' @ [CHR 0x27] @
     ''theme_name'' @ [CHR 0x27] @ '')''"

definition raw_pptx_error :: string where
  "raw_pptx_error = ''CRITICAL: Raw python-pptx usage detected. Must use template system only''"

definition failed_validation :: "string \<Rightarrow> validation_results" where
  "failed_validation err =
     \<lparr>syntax_valid = False, imports_template = None, imports_pptx = Some False,
      uses_template_system = None, creates_presentation = False,
      saves_presentation = False, has_slides = False, template_theme_selected = None,
      uses_raw_pptx = None, errors = [err], warnings = []\<rparr>"

definition validate_ppt_code ::
  "(string \<Rightarrow> parse_result) \<Rightarrow> string \<Rightarrow> world \<Rightarrow> validation_results \<times> world" where
  \<open>validate_ppt_code ast_parse code w =
     (let w1 = logger_info (''Validating code: '' @ code) w in
      case ast_parse code of
        SyntaxError lineno msg \<Rightarrow>
          (failed_validation (''Syntax error at line '' @ show_lineno lineno @ '': '' @ msg), w1)
      | OtherException e \<Rightarrow>
          (failed_validation (''Validation error: '' @ e), w1)
      | Parsed \<Rightarrow>
          (let code_text = join_nl (split_nl code);
               imports = str_in ''from ppt_templates import create_template'' code_text;
               uses = str_in ''create_template('' code_text;
               theme_selected =
                 list_ex (\<lambda>theme. str_in (''create_template("'' @ theme @ ''")'') code_text) themes;
               raw =
                 (str_in ''Presentation()'' code_text \<or> str_in ''pptx.Presentation()'' code_text \<or>
                  str_in ''from pptx import Presentation'' code_text \<or>
                  str_in ''import pptx'' code_text);
               saves = str_in ''.save('' code_text;
               slides = list_ex (\<lambda>method. str_in method code_text) template_methods;
               found =
                 filter (\<lambda>pattern. str_in pattern code_text \<and>
                                    str_in ''create_content_slide'' code_text)
                   problematic_patterns
           in (\<lparr>syntax_valid = True, imports_template = Some imports, imports_pptx = None,
                uses_template_system = Some uses, creates_presentation = uses,
                saves_presentation = saves, has_slides = slides,
                template_theme_selected = Some theme_selected, uses_raw_pptx = Some raw,
                errors =
                  (if \<not> imports then [missing_import_error] else []) @
                  (if \<not> uses then [missing_template_error] else []) @
                  (if raw then [raw_pptx_error] else []),
                warnings =
                  map pattern_warning found @
                  (if \<not> theme_selected
                   then [''Template theme not clearly specified. Use: business, tech, creative, or corporate'']
                   else []) @
                  (if \<not> saves then [''Presentation save method not found''] else []) @
                  (if \<not> slides then [''No template slide creation methods found''] else [])\<rparr>,
               w1)))\<close>

section \<open>What the tools take from their environment\<close>

text \<open>
  What one call reads from outside: the working directory (an absolute path), a fresh
  UUID, the clock, which file system operations raise for a reason other than a missing
  parent directory (with the text of the exception), and the child process.
\<close>

datatype proc_outcome =
  Completed int string string
| TimeoutExpired
| ProcessError string

record env =
  cwd :: string
  uuid4 :: string
  timestamp :: string
  mkdir_error :: "string \<Rightarrow> string option"
  copy_error :: "string \<Rightarrow> string option"
  write_error :: "string \<Rightarrow> string option"
  run_child :: "string \<Rightarrow> string \<Rightarrow> world \<Rightarrow> proc_outcome \<times> world"

text \<open>
  \<open>Completed returncode stdout stderr\<close> is the \<^verbatim>\<open>CompletedProcess\<close> of
  \<^verbatim>\<open>subprocess.run([sys.executable, code_file], capture_output=True, text=True,
  timeout=120, cwd=project_path)\<close>; \<open>run_child env code_file project_path w\<close> is the
  outcome of that call together with the world the child leaves behind.
\<close>

section \<open>create_project_folder\<close>





text \<open>\<^verbatim>\<open>Path.cwd() / "generated_presentations" / folder_name\<close>.\<close>

definition project_folder_path :: "env \<Rightarrow> string \<Rightarrow> path" where
  "project_folder_path env topic =
     (let unique_id = take 8 (uuid4 env);
          folder_name = ''ppt_presentation_'' @ topic @ ''_'' @ timestamp env @ ''_'' @ unique_id
      in joinpath (joinpath (parse_path (cwd env)) ''generated_presentations'') folder_name)"



section \<open>execute_ppt_code\<close>

text \<open>
  The dictionary returned by \<^verbatim>\<open>execute_ppt_code\<close>; \<open>exec_output\<close> is its key
  \<^verbatim>\<open>output\<close>, and \<open>exec_output\<close> and \<open>error\<close> are \<open>None\<close> where the return site has no
  such key.
\<close>

record exec_result =
  status :: string
  ppt_path :: string
  exec_output :: "string option"
  error :: "string option"
  message :: string

text \<open>
  What can be raised inside the \<^verbatim>\<open>try\<close>: \<^verbatim>\<open>subprocess.TimeoutExpired\<close>, or any other
  exception with its text. A step of the body goes on with a new world, returns a
  result at once, or raises.
\<close>

datatype exn = SubprocessTimeout | Exception string

datatype step = Continue world | Return exec_result world | Raise exn world

text \<open>
  \<^verbatim>\<open>output_path = project_path / "presentations" / filename\<close>, after the extension
  \<^verbatim>\<open>.pptx\<close> has been added to a filename that lacks it; \<open>project_path\<close> is
  \<^verbatim>\<open>Path(project_folder)\<close>.
\<close>

definition output_path :: "string \<Rightarrow> string \<Rightarrow> path" where
  "output_path project_folder filename =
     joinpath (joinpath (parse_path project_folder) ''presentations'')
       (if endswith filename ''.pptx'' then filename else filename @ ''.pptx'')"

text \<open>\<^verbatim>\<open>str(output_path).replace('\\', '/')\<close>.\<close>

definition output_path_text :: "string \<Rightarrow> string \<Rightarrow> string" where
  "output_path_text project_folder filename =
     replace_backslash (path_str (output_path project_folder filename))"

text \<open>\<^verbatim>\<open>code_file = project_path / "code" / "generate_ppt.py"\<close>, as text.\<close>

definition code_file_path :: "string \<Rightarrow> string" where
  "code_file_path project_folder =
     path_str (joinpath (joinpath (parse_path project_folder) ''code'') ''generate_ppt.py'')"

text \<open>The replacement text \<^verbatim>\<open>.save(r"<output_path_str>")\<close>.\<close>

definition save_call :: "string \<Rightarrow> string" where
  \<open>save_call output_path_str = ''.save(r"'' @ output_path_str @ ''")''\<close>

text \<open>
  Lines 333 to 340: every save call is pointed at the output path; a source without
  the text \<^verbatim>\<open>.save(\<close> gets a save call appended.
\<close>

definition relocate_save :: "string \<Rightarrow> string \<Rightarrow> string" where
  "relocate_save output_path_str code =
     (if str_in ''.save('' code then re_sub_save (save_call output_path_str) code
      else code @ ''\<newline>\<newline># Save the presentation\<newline>prs'' @ save_call output_path_str)"

definition template_source :: string where
  "template_source = ''app'' @ [CHR 0x5C] @ ''ppt_gen'' @ [CHR 0x5C] @ ''ppt_templates.py''"

text \<open>\<^verbatim>\<open>shutil.copy2(src, dst)\<close>; the caller has checked that \<open>src\<close> exists.\<close>

definition copy2 :: "env \<Rightarrow> string \<Rightarrow> string \<Rightarrow> world \<Rightarrow> string + world" where
  "copy2 env src dst w =
     (case copy_error env dst of
        Some e \<Rightarrow> Inl e
      | None \<Rightarrow> Inr (w\<lparr>files := (files w)(dst := files w src)\<rparr>))"

text \<open>\<^verbatim>\<open>with open(path, 'w', encoding='utf-8') as f: f.write(text)\<close>.\<close>

definition write_file :: "env \<Rightarrow> string \<Rightarrow> string \<Rightarrow> world \<Rightarrow> string + world" where
  "write_file env path text w =
     (case write_error env path of
        Some e \<Rightarrow> Inl e
      | None \<Rightarrow> Inr (w\<lparr>files := (files w)(path \<mapsto> text)\<rparr>))"

text \<open>\<^verbatim>\<open>os.path.exists(p)\<close> and \<^verbatim>\<open>Path(p).exists()\<close>.\<close>

definition path_exists :: "world \<Rightarrow> string \<Rightarrow> bool" where
  "path_exists w p = (case files w p of Some data \<Rightarrow> True | None \<Rightarrow> p \<in> set (dirs w))"

text \<open>Lines 342 to 356: the template module is copied into the project directory.\<close>

definition copy_template_to_project :: "env \<Rightarrow> string \<Rightarrow> string \<Rightarrow> world \<Rightarrow> step" where
  "copy_template_to_project env project_folder code w =
     (if str_in ''from ppt_templates import'' code then
        (let template_dest = path_str (joinpath (parse_path project_folder) ''ppt_templates.py'') in
         if path_exists w template_source then
           (case copy2 env template_source template_dest w of
              Inl e \<Rightarrow> Raise (Exception e) w
            | Inr w1 \<Rightarrow> Continue (logger_info (''Copied ppt_templates.py to '' @ template_dest) w1))
         else
           Return \<lparr>status = ''error'', ppt_path = [], exec_output = None, error = None,
                   message = ''Template source file not found at '' @ template_source\<rparr>
             (logger_error (''Template source file not found at '' @ template_source) w))
      else Continue w)"

text \<open>
  Lines 358 to 364: the copy into the \<^verbatim>\<open>code\<close> directory. Its guard is
  \<^verbatim>\<open>template_source.exists()\<close>, and \<^verbatim>\<open>template_source\<close> is a \<^verbatim>\<open>str\<close>, which has no such
  method: evaluating the guard raises \<^verbatim>\<open>AttributeError\<close>, so the copy below it is never
  reached.
\<close>

definition attribute_error :: string where
  "attribute_error =
     [CHR 0x27] @ ''str'' @ [CHR 0x27] @ '' object has no attribute '' @
     [CHR 0x27] @ ''exists'' @ [CHR 0x27]"

definition copy_template_to_code_dir :: "string \<Rightarrow> world \<Rightarrow> step" where
  "copy_template_to_code_dir code w =
     (if str_in ''from ppt_templates import'' code then Raise (Exception attribute_error) w
      else Continue w)"

text \<open>Lines 366 to 374: the path setup put in front of a source that uses templates.\<close>

definition path_setup :: string where
  "path_setup =
     ''import sys\<newline>import os\<newline>'' @
     ''# Add current directory to Python path for template imports\<newline>'' @
     ''sys.path.insert(0, os.path.dirname(os.path.abspath(__file__)))\<newline>'' @
     ''sys.path.insert(0, os.path.dirname(os.path.dirname(os.path.abspath(__file__))))\<newline>'' @
     ''\<newline>''"

definition add_path_setup :: "string \<Rightarrow> string" where
  "add_path_setup code =
     (if str_in ''from ppt_templates import'' code then path_setup @ code else code)"

text \<open>
  Lines 386 to 414: what is returned once \<^verbatim>\<open>subprocess.run\<close> has returned with
  \<open>returncode\<close>, \<open>stdout\<close> and \<open>stderr\<close>, in the world \<open>w\<close> the child left behind.
\<close>

definition report_completed :: "string \<Rightarrow> int \<Rightarrow> string \<Rightarrow> string \<Rightarrow> world \<Rightarrow> exec_result \<times> world" where
  "report_completed out returncode stdout stderr w =
     (if returncode = 0 then
        (if path_exists w out then
           (\<lparr>status = ''success'', ppt_path = out, exec_output = Some stdout, error = None,
             message = ''PowerPoint presentation generated successfully''\<rparr>,
            logger_info (''Presentation generated successfully: '' @ out) w)
         else
           (\<lparr>status = ''warning'', ppt_path = [], exec_output = Some stdout, error = None,
             message = ''Code execution completed but no presentation file found''\<rparr>,
            logger_warning ''Code execution completed but no presentation file found'' w))
      else
        (let error_msg = (if stderr \<noteq> [] then stderr else stdout) in
         (\<lparr>status = ''error'', ppt_path = [], exec_output = Some stdout, error = Some error_msg,
           message = ''PowerPoint code execution failed: '' @ error_msg\<rparr>,
          logger_error (''PowerPoint code execution failed: '' @ error_msg) w)))"

definition run_and_report ::
  "env \<Rightarrow> string \<Rightarrow> string \<Rightarrow> string \<Rightarrow> world \<Rightarrow> (exn \<times> world) + (exec_result \<times> world)" where
  "run_and_report env code_file project_path out w =
     (case run_child env code_file project_path w of
        (Completed returncode stdout stderr, w') \<Rightarrow>
          Inr (report_completed out returncode stdout stderr w')
      | (TimeoutExpired, w') \<Rightarrow> Inl (SubprocessTimeout, w')
      | (ProcessError e, w') \<Rightarrow> Inl (Exception e, w'))"

text \<open>The body of the \<^verbatim>\<open>try\<close>: \<open>Inl\<close> is what it raises, \<open>Inr\<close> what it returns.\<close>

definition execute_ppt_code_try ::
  "env \<Rightarrow> string \<Rightarrow> string \<Rightarrow> string \<Rightarrow> world \<Rightarrow> (exn \<times> world) + (exec_result \<times> world)" where
  "execute_ppt_code_try env code project_folder filename w =
     (let code_file = code_file_path project_folder;
          out = path_str (output_path project_folder filename);
          code1 = relocate_save (output_path_text project_folder filename) code
      in case copy_template_to_project env project_folder code1 w of
           Raise e w' \<Rightarrow> Inl (e, w')
         | Return r w' \<Rightarrow> Inr (r, w')
         | Continue w1 \<Rightarrow>
             (case copy_template_to_code_dir code1 w1 of
                Raise e w' \<Rightarrow> Inl (e, w')
              | Return r w' \<Rightarrow> Inr (r, w')
              | Continue w2 \<Rightarrow>
                  (case write_file env code_file (add_path_setup code1) w2 of
                     Inl e \<Rightarrow> Inl (Exception e, w2)
                   | Inr w3 \<Rightarrow>
                       run_and_report env code_file (path_str (parse_path project_folder)) out
                         (logger_info (''Executing PowerPoint code in '' @ code_file) w3))))"

text \<open>The two \<^verbatim>\<open>except\<close> clauses turn what was raised into an error result.\<close>

definition execute_ppt_code ::
  "env \<Rightarrow> string \<Rightarrow> string \<Rightarrow> string \<Rightarrow> world \<Rightarrow> exec_result \<times> world" where
  "execute_ppt_code env code project_folder filename w =
     (case execute_ppt_code_try env code project_folder filename w of
        Inr r \<Rightarrow> r
      | Inl (SubprocessTimeout, w') \<Rightarrow>
          (\<lparr>status = ''error'', ppt_path = [], exec_output = None, error = None,
            message = ''PowerPoint code execution timed out (>2 minutes)''\<rparr>,
           logger_error ''PowerPoint code execution timed out'' w')
      | Inl (Exception e, w') \<Rightarrow>
          (\<lparr>status = ''error'', ppt_path = [], exec_output = None, error = None,
            message = ''Error executing PowerPoint code: '' @ e\<rparr>,
           logger_error (''Error executing PowerPoint code: '' @ e) w'))"

section \<open>create_template\<close>

text \<open>
  The design system of \<^verbatim>\<open>app/ppt_gen/ppt_templates.py\<close>: four colour schemes and four
  template classes, each of which passes the name of its scheme to the constructor of
  the base class \<^verbatim>\<open>PPTTemplate\<close>. An instance is modelled by its class, its colour
  scheme and the slides of its presentation (a new presentation has none); the font
  table is the same constant in every instance and is left out.
\<close>

type_synonym rgb = "nat \<times> nat \<times> nat"

record colors =
  primary :: rgb
  secondary :: rgb
  accent :: rgb
  background :: rgb
  text_color :: rgb

definition business_blue :: colors where
  "business_blue = \<lparr>primary = (0, 120, 212), secondary = (40, 40, 40), accent = (0, 178, 148),
     background = (255, 255, 255), text_color = (32, 32, 32)\<rparr>"

definition COLORS :: "(string \<times> colors) list" where
  "COLORS =
     [(''business_blue'', business_blue),
      (''modern_purple'',
        \<lparr>primary = (102, 45, 145), secondary = (68, 68, 68), accent = (255, 185, 0),
         background = (255, 255, 255), text_color = (33, 33, 33)\<rparr>),
      (''tech_green'',
        \<lparr>primary = (46, 125, 50), secondary = (55, 71, 79), accent = (255, 152, 0),
         background = (255, 255, 255), text_color = (33, 33, 33)\<rparr>),
      (''corporate_red'',
        \<lparr>primary = (183, 28, 28), secondary = (66, 66, 66), accent = (0, 188, 212),
         background = (255, 255, 255), text_color = (33, 33, 33)\<rparr>)]"

datatype template_class = BusinessTemplate | TechTemplate | CreativeTemplate | CorporateTemplate

record ppt_template =
  instance_of :: template_class
  color_scheme :: colors
  prs :: "string list"

text \<open>\<^verbatim>\<open>PPTTemplate.__init__(self, color_scheme)\<close>, for an instance of class \<open>cls\<close>.\<close>

definition PPTTemplate_init :: "template_class \<Rightarrow> string \<Rightarrow> ppt_template" where
  "PPTTemplate_init cls scheme =
     \<lparr>instance_of = cls,
      color_scheme = (case map_of COLORS scheme of Some c \<Rightarrow> c | None \<Rightarrow> business_blue),
      prs = []\<rparr>"

text \<open>Calling a template class: its \<^verbatim>\<open>__init__\<close> calls the base with its scheme.\<close>

fun new_template :: "template_class \<Rightarrow> ppt_template" where
  "new_template BusinessTemplate = PPTTemplate_init BusinessTemplate ''business_blue''"
| "new_template TechTemplate = PPTTemplate_init TechTemplate ''tech_green''"
| "new_template CreativeTemplate = PPTTemplate_init CreativeTemplate ''modern_purple''"
| "new_template CorporateTemplate = PPTTemplate_init CorporateTemplate ''corporate_red''"

definition templates :: "(string \<times> template_class) list" where
  "templates =
     [(''business'', BusinessTemplate), (''tech'', TechTemplate),
      (''creative'', CreativeTemplate), (''corporate'', CorporateTemplate)]"

definition create_template :: "string \<Rightarrow> ppt_template" where
  "create_template template_type =
     new_template (case map_of templates template_type of
                     Some template_class \<Rightarrow> template_class
                   | None \<Rightarrow> BusinessTemplate)"

section \<open>generate_powerpoint_presentation\<close>

text \<open>
  The driver hands the request to the supervisor of \<^verbatim>\<open>langgraph_supervisor\<close> and reads
  the events it streams. The supervisor and the agents behind it are language models:
  which agent runs next, and how often, is decided there. A run of the supervisor is what
  \<^verbatim>\<open>supervisor.stream(input_messages, config)\<close> yields: the events, each a dictionary from
  agent names to values, and the text of the exception that ended the stream, if one
  did. A value is the list of the contents of its \<^verbatim>\<open>messages\<close> (\<open>None\<close> when it has no
  such key).

  Text is held as UTF-8, so that a character outside ASCII is a lead byte followed by
  continuation bytes.
\<close>

type_synonym event = "(string \<times> string list option) list"

record supervisor_run =
  events :: "event list"
  raised :: "string option"

text \<open>\<^verbatim>\<open>s.lower()\<close> on the ASCII letters.\<close>

definition lower :: "string \<Rightarrow> string" where
  "lower s = map (\<lambda>c. if 65 \<le> (of_char c :: nat) \<and> (of_char c :: nat) \<le> 90
                        then char_of ((of_char c :: nat) + 32) else c) s"

text \<open>
  \<^verbatim>\<open>s.encode('ascii', 'replace').decode('ascii')\<close>: a question mark for every character
  outside ASCII.
\<close>

definition ascii_replace :: "string \<Rightarrow> string" where
  "ascii_replace s =
     concat (map (\<lambda>c. if (of_char c :: nat) < 128 then [c]
                       else if 192 \<le> (of_char c :: nat) then ''?'' else []) s)"

record log_entry =
  agent :: string
  content :: string
  entry_timestamp :: string

text \<open>
  The dictionary returned by the driver. Its keys \<^verbatim>\<open>ppt_path\<close>, \<^verbatim>\<open>project_folder\<close> and
  \<^verbatim>\<open>error\<close> are \<open>result_ppt_path\<close>, \<open>result_project_folder\<close> and \<open>result_error\<close>. The
  dictionary returned from the \<^verbatim>\<open>except\<close> clause has only the keys \<^verbatim>\<open>success\<close>,
  \<^verbatim>\<open>topic\<close>, \<^verbatim>\<open>thread_id\<close>, \<^verbatim>\<open>error\<close> and \<^verbatim>\<open>workflow_log\<close>; the others are \<open>None\<close> there.
\<close>

record result =
  success :: bool
  result_topic :: string
  result_thread_id :: string
  workflow_log :: "log_entry list"
  agent_outputs :: "(string \<rightharpoonup> string) option"
  result_ppt_path :: "string option"
  result_project_folder :: "string option"
  email_sent :: "bool option"
  result_email_recipient :: "string option"
  result_error :: "string option"

text \<open>What the loop over the stream carries: the log of the workflow, the latest
  output of every agent, and the world (the driver writes log records).\<close>

record tracking =
  tracked_log :: "log_entry list"
  tracked_outputs :: "string \<rightharpoonup> string"
  tracked_world :: world

text \<open>
  The body of the inner loop for one item of an event. \<open>clock n\<close> is the text of
  \<^verbatim>\<open>datetime.now().isoformat()\<close> when the entry number \<open>n\<close> is appended.
\<close>

definition track_item :: "(nat \<Rightarrow> string) \<Rightarrow> string \<times> string list option \<Rightarrow> tracking \<Rightarrow> tracking" where
  "track_item clock item t =
     (case item of
        (agent_name, None) \<Rightarrow> t
      | (agent_name, Some []) \<Rightarrow> t
      | (agent_name, Some (m # ms)) \<Rightarrow>
          (let latest_message = last (m # ms);
               safe_content = ascii_replace latest_message;
               w1 = logger_info (''Agent '' @ [CHR 0x27] @ agent_name @ [CHR 0x27] @ '': '' @
                                 safe_content @ ''...'') (tracked_world t);
               w2 = logger_info (replicate 40 CHR ''-'') w1
           in \<lparr>tracked_log = tracked_log t @
                  [\<lparr>agent = agent_name, content = latest_message,
                    entry_timestamp = clock (length (tracked_log t))\<rparr>],
                tracked_outputs = (tracked_outputs t)(agent_name \<mapsto> latest_message),
                tracked_world = w2\<rparr>))"

definition track_events :: "(nat \<Rightarrow> string) \<Rightarrow> event list \<Rightarrow> tracking \<Rightarrow> tracking" where
  "track_events clock evs t = fold (track_item clock) (concat evs) t"

definition success_indicators :: "string list" where
  "success_indicators =
     [''PowerPoint presentation generated successfully'', ''ppt_path'', ''status.*success'',
      ''presentation.*created'']"

definition is_successful :: "string \<Rightarrow> bool" where
  "is_successful executor_output =
     list_ex (\<lambda>indicator. str_in (lower indicator) (lower executor_output)) success_indicators"

text \<open>The check mark U+2705 in UTF-8.\<close>

definition check_mark :: string where
  "check_mark = [CHR 0xE2, CHR 0x9C, CHR 0x85]"

definition email_was_sent :: "string \<Rightarrow> bool" where
  "email_was_sent email_output =
     (email_output \<noteq> [] \<and>
      (str_in ''Email sent successfully'' email_output \<or> str_in check_mark email_output))"

text \<open>\<^verbatim>\<open>agent_outputs.get(key, "")\<close>.\<close>

definition get_output :: "(string \<rightharpoonup> string) \<Rightarrow> string \<Rightarrow> string" where
  "get_output outputs key = (case outputs key of Some v \<Rightarrow> v | None \<Rightarrow> [])"

definition input_message :: "string \<Rightarrow> string option \<Rightarrow> string" where
  "input_message topic email_recipient =
     ''Generate a professional PowerPoint presentation about: '' @ topic @
     (case email_recipient of
        None \<Rightarrow> []
      | Some r \<Rightarrow> if r = [] then []
                  else '' Also send the presentation to '' @ r @ '' via email.'')"

text \<open>
  The driver. \<open>supervisor msg thread_id\<close> is the run of the supervisor on the input
  message under the given thread, \<open>uuid\<close> the text of a fresh UUID.
\<close>

definition generate_powerpoint_presentation ::
  "(string \<Rightarrow> string \<Rightarrow> supervisor_run) \<Rightarrow> string \<Rightarrow> (nat \<Rightarrow> string) \<Rightarrow>
   string \<Rightarrow> string option \<Rightarrow> string option \<Rightarrow> world \<Rightarrow> result \<times> world" where
  "generate_powerpoint_presentation supervisor uuid clock topic thread_id email_recipient w =
     (let thread = (case thread_id of None \<Rightarrow> take 8 uuid | Some t \<Rightarrow> t);
          w1 = logger_info (''Starting PowerPoint presentation generation for topic: '' @ topic) w;
          w2 = logger_info (replicate 60 CHR ''='') w1;
          run = supervisor (input_message topic email_recipient) thread;
          t = track_events clock (events run)
                \<lparr>tracked_log = [], tracked_outputs = Map.empty, tracked_world = w2\<rparr>
      in case raised run of
           Some e \<Rightarrow>
             (\<lparr>success = False, result_topic = topic, result_thread_id = thread,
               workflow_log = tracked_log t, agent_outputs = None, result_ppt_path = None,
               result_project_folder = None, email_sent = None,
               result_email_recipient = None, result_error = Some e\<rparr>,
              logger_error (''Error during presentation generation: '' @ e) (tracked_world t))
         | None \<Rightarrow>
             (let executor_output = get_output (tracked_outputs t) ''ppt_executor_agent'';
                  w3 = logger_info (''executor_output : '' @ executor_output) (tracked_world t);
                  email_output = get_output (tracked_outputs t) ''email_sender_agent'';
                  ok = is_successful executor_output
              in (\<lparr>success = ok, result_topic = topic, result_thread_id = thread,
                   workflow_log = tracked_log t, agent_outputs = Some (tracked_outputs t),
                   result_ppt_path = None, result_project_folder = None,
                   email_sent = Some (email_was_sent email_output),
                   result_email_recipient = email_recipient, result_error = None\<rparr>,
                  logger_info (''Presentation generation completed. Success: '' @
                               (if ok then ''True'' else ''False'')) w3)))"

section \<open>Inputs for running the model\<close>

text \<open>
  An environment with the working directory \<^verbatim>\<open>/srv\<close> in which no file system operation
  fails for a reason of its own; an empty world, and a world in which the working directory
  exists; and a parser that answers as Python does on the source texts used below
  (\<^verbatim>\<open>x = = 1\<close> is a syntax error at line 1, the others parse).

  The child of the environment answers as the Python interpreter does on the two
  programs that are run below, in the form in which the executor writes them for the
  project folder \<^verbatim>\<open>/srv/p\<close> and the filename \<^verbatim>\<open>deck\<close>. The first leaves with
  \<^verbatim>\<open>sys.exit(0)\<close> before it reaches the appended save call: exit code 0, no output,
  nothing written. The second prints \<^verbatim>\<open>boom\<close> and leaves with \<^verbatim>\<open>sys.exit(1)\<close>: exit code
  1, the line on the standard output, nothing on the standard error. A file that is
  missing makes the interpreter exit with code 2. No other program is run in this
  theory; for one, the child stands for a process that could not be started.
\<close>

definition exits_clean_program :: string where
  \<open>exits_clean_program =
     ''import sys\<newline>sys.exit(0)'' @
     ''\<newline>\<newline># Save the presentation\<newline>prs.save(r"/srv/p/presentations/deck.pptx")''\<close>

definition prints_and_fails_program :: string where
  \<open>prints_and_fails_program =
     ''import sys\<newline>print("boom")\<newline>sys.exit(1)'' @
     ''\<newline>\<newline># Save the presentation\<newline>prs.save(r"/srv/p/presentations/deck.pptx")''\<close>

definition example_child :: "string \<Rightarrow> string \<Rightarrow> world \<Rightarrow> proc_outcome \<times> world" where
  "example_child code_file project_path w =
     (case files w code_file of
        None \<Rightarrow>
          (Completed 2 []
             (''python: can'' @ [CHR 0x27] @ ''t open file '' @ [CHR 0x27] @ code_file @
              [CHR 0x27] @ '': [Errno 2] No such file or directory\<newline>''), w)
      | Some program \<Rightarrow>
          if program = exits_clean_program then (Completed 0 [] [], w)
          else if program = prints_and_fails_program then (Completed 1 ''boom\<newline>'' [], w)
          else (ProcessError ''not one of the example programs'', w))"

definition example_env :: env where
  "example_env =
     \<lparr>cwd = ''/srv'', uuid4 = ''3f2a9c1e-7b64-4d2a-9e0f-5c1d2b3a4f60'',
      timestamp = ''20250101_120000'',
      mkdir_error = (\<lambda>p. None), copy_error = (\<lambda>p. None), write_error = (\<lambda>p. None),
      run_child = example_child\<rparr>"

definition example_world :: world where
  "example_world = \<lparr>dirs = [], files = Map.empty, log = []\<rparr>"


text \<open>A world in which the project folder \<^verbatim>\<open>/srv/p\<close> has been laid out.\<close>

definition example_project :: world where
  "example_project =
     \<lparr>dirs = [''/'', ''/srv'', ''/srv/p'', ''/srv/p/code'', ''/srv/p/presentations'',
              ''/srv/p/assets'', ''/srv/p/logs''],
      files = Map.empty, log = []\<rparr>"

definition example_parse :: "string \<Rightarrow> parse_result" where
  "example_parse code =
     (if code = ''x = = 1'' then SyntaxError (Some 1) ''invalid syntax'' else Parsed)"

text \<open>
  Runs of the supervisor, as the stream would deliver them. In the first the executor
  reports success and the email agent then answers with the given text. In the second the
  executor reports success in the same way, and the stream then raises while the email
  agent is at work (the call to its language model fails).
\<close>

definition example_supervisor :: "string \<Rightarrow> string \<Rightarrow> string \<Rightarrow> supervisor_run" where
  "example_supervisor email_output msg thread =
     \<lparr>events =
        [[(''ppt_executor_agent'', Some [''PowerPoint presentation generated successfully''])],
         [(''email_sender_agent'', Some [email_output])]],
      raised = None\<rparr>"

definition example_supervisor_email_raises :: "string \<Rightarrow> string \<Rightarrow> supervisor_run" where
  "example_supervisor_email_raises msg thread =
     \<lparr>events =
        [[(''ppt_executor_agent'', Some [''PowerPoint presentation generated successfully''])]],
      raised = Some ''Connection error.''\<rparr>"

definition example_clock :: "nat \<Rightarrow> string" where
  "example_clock n = ''2025-01-01T12:00:00''"

section \<open>Properties of the validator\<close>

lemma split_nl_not_Nil: "split_nl s \<noteq> []"
  by (induction s) (auto split: list.splits)

text \<open>Splitting at newlines and joining again gives the text back.\<close>

lemma join_split_nl: "join_nl (split_nl s) = s"
proof (induction s)
  case Nil
  show ?case by simp
next
  case (Cons c cs)
  obtain l ls where sp: "split_nl cs = l # ls"
    using split_nl_not_Nil [of cs] by (cases "split_nl cs") auto
  show ?case
  proof (cases "c = CHR ''\<newline>''")
    case True
    with Cons sp show ?thesis by simp
  next
    case False
    with Cons sp show ?thesis by (cases ls) auto
  qed
qed

text \<open>
  Claim C4. When the parser rejects the source with a syntax error, the report has
  exactly one finding, the syntax error with its line and message, and no warning; none
  of the later checks has run: the flags of the template import, the template call, the
  theme and the raw construction are absent, and the save and slide flags are false.
\<close>

theorem validate_syntax_error_only_finding:
  assumes "ast_parse code = SyntaxError lineno msg"
  shows "errors (fst (validate_ppt_code ast_parse code w)) =
           [''Syntax error at line '' @ show_lineno lineno @ '': '' @ msg]
       \<and> warnings (fst (validate_ppt_code ast_parse code w)) = []
       \<and> \<not> syntax_valid (fst (validate_ppt_code ast_parse code w))
       \<and> imports_template (fst (validate_ppt_code ast_parse code w)) = None
       \<and> uses_template_system (fst (validate_ppt_code ast_parse code w)) = None
       \<and> template_theme_selected (fst (validate_ppt_code ast_parse code w)) = None
       \<and> uses_raw_pptx (fst (validate_ppt_code ast_parse code w)) = None
       \<and> \<not> saves_presentation (fst (validate_ppt_code ast_parse code w))
       \<and> \<not> has_slides (fst (validate_ppt_code ast_parse code w))"
  using assms by (simp add: validate_ppt_code_def failed_validation_def Let_def)

theorem validate_syntax_error_only_finding_witness:
  "example_parse ''x = = 1'' = SyntaxError (Some 1) ''invalid syntax''
   \<and> errors (fst (validate_ppt_code example_parse ''x = = 1'' example_world)) =
       [''Syntax error at line 1: invalid syntax'']
   \<and> warnings (fst (validate_ppt_code example_parse ''x = = 1'' example_world)) = []"
proof -
  have h: "example_parse ''x = = 1'' = SyntaxError (Some 1) ''invalid syntax''"
    by (simp add: example_parse_def)
  show ?thesis
    using h validate_syntax_error_only_finding
      [of example_parse "''x = = 1''" "Some 1" "''invalid syntax''" example_world]
    by (simp add: show_lineno_def)
qed

text \<open>
  Claim C9, as the code has it. A source without the template import never passes: its
  report has an error. When the source parses, the report has the error that cites the
  import exactly once if the import is missing and not at all otherwise, and likewise
  the error that cites the template call. When the source does not parse, the only
  finding is the syntax error, and no finding cites the import: the source \<^verbatim>\<open>x = = 1\<close>
  below lacks the import, and its report holds the syntax error alone.
\<close>

theorem validate_missing_import_blocks:
  "(\<not> str_in ''from ppt_templates import create_template'' code \<longrightarrow>
      errors (fst (validate_ppt_code ast_parse code w)) \<noteq> [])
   \<and> (ast_parse code = Parsed \<longrightarrow>
        count_list (errors (fst (validate_ppt_code ast_parse code w))) missing_import_error =
          (if str_in ''from ppt_templates import create_template'' code then 0 else 1)
      \<and> count_list (errors (fst (validate_ppt_code ast_parse code w))) missing_template_error =
          (if str_in ''create_template('' code then 0 else 1))"
  by (cases "ast_parse code")
     (simp_all add: validate_ppt_code_def failed_validation_def Let_def join_split_nl
        missing_import_error_def missing_template_error_def raw_pptx_error_def)

theorem validate_missing_import_blocks_witness:
  "\<not> str_in ''from ppt_templates import create_template'' ''x = 1''
   \<and> example_parse ''x = 1'' = Parsed
   \<and> errors (fst (validate_ppt_code example_parse ''x = 1'' example_world)) =
       [missing_import_error, missing_template_error]"
  using validate_missing_import_blocks [of "''x = 1''" example_parse example_world]
  by (simp add: validate_ppt_code_def example_parse_def Let_def
      missing_import_error_def missing_template_error_def)

theorem validate_missing_import_counterexample:
  "\<not> str_in ''from ppt_templates import create_template'' ''x = = 1''
   \<and> errors (fst (validate_ppt_code example_parse ''x = = 1'' example_world)) =
       [''Syntax error at line 1: invalid syntax'']
   \<and> warnings (fst (validate_ppt_code example_parse ''x = = 1'' example_world)) = []
   \<and> missing_import_error \<notin>
       set (errors (fst (validate_ppt_code example_parse ''x = = 1'' example_world)))"
  by (simp add: validate_ppt_code_def example_parse_def failed_validation_def
      show_lineno_def missing_import_error_def)

text \<open>
  Claim C7, as the code has it. The report depends on the source text and the parser
  only: it is the same in every world, and a second call on the same text, made in the
  world the first call left, gives the same report. The validator does write: each call
  appends one record, the source text, to the log. It changes nothing else; it creates no
  directory, writes no file and runs nothing.
\<close>

theorem validate_report_deterministic:
  "fst (validate_ppt_code ast_parse code w) = fst (validate_ppt_code ast_parse code w')
   \<and> fst (validate_ppt_code ast_parse code (snd (validate_ppt_code ast_parse code w))) =
       fst (validate_ppt_code ast_parse code w)
   \<and> snd (validate_ppt_code ast_parse code w) = logger_info (''Validating code: '' @ code) w
   \<and> dirs (snd (validate_ppt_code ast_parse code w)) = dirs w
   \<and> files (snd (validate_ppt_code ast_parse code w)) = files w"
  by (cases "ast_parse code")
     (simp_all add: validate_ppt_code_def Let_def logger_info_def)

theorem validate_report_deterministic_witness:
  "fst (validate_ppt_code example_parse ''x = 1''
          (snd (validate_ppt_code example_parse ''x = 1'' example_world))) =
     fst (validate_ppt_code example_parse ''x = 1'' example_world)
   \<and> dirs (snd (validate_ppt_code example_parse ''x = 1'' example_world)) = []
   \<and> log (snd (validate_ppt_code example_parse ''x = 1'' example_world)) =
       [(INFO, ''Validating code: x = 1'')]"
proof -
  note t = validate_report_deterministic [of example_parse "''x = 1''" example_world example_world]
  from t have a: "fst (validate_ppt_code example_parse ''x = 1''
          (snd (validate_ppt_code example_parse ''x = 1'' example_world))) =
     fst (validate_ppt_code example_parse ''x = 1'' example_world)"
    by blast
  from t have b: "snd (validate_ppt_code example_parse ''x = 1'' example_world) =
     logger_info (''Validating code: '' @ ''x = 1'') example_world"
    by blast
  have c: "dirs (snd (validate_ppt_code example_parse ''x = 1'' example_world)) = []
     \<and> log (snd (validate_ppt_code example_parse ''x = 1'' example_world)) =
         [(INFO, ''Validating code: x = 1'')]"
    unfolding b by (simp add: logger_info_def example_world_def)
  from a c show ?thesis by blast
qed

theorem validate_logs_counterexample:
  "snd (validate_ppt_code example_parse ''x = 1'' example_world) \<noteq> example_world
   \<and> log (snd (validate_ppt_code example_parse ''x = 1'' example_world)) =
       [(INFO, ''Validating code: x = 1'')]"
  by (simp add: validate_ppt_code_def example_parse_def example_world_def Let_def logger_info_def)

section \<open>Properties of the template factory\<close>

text \<open>
  Claim C10. \<open>create_template\<close> has a result for every string. For a string that is
  none of \<^verbatim>\<open>business\<close>, \<^verbatim>\<open>tech\<close>, \<^verbatim>\<open>creative\<close> and \<^verbatim>\<open>corporate\<close> the result is the
  instance that \<^verbatim>\<open>business\<close> gives: a \<open>BusinessTemplate\<close> with the scheme
  \<open>business_blue\<close>. No error is reported for an unknown theme.
\<close>

theorem create_template_unknown_is_business:
  assumes "template_type \<notin> set [''business'', ''tech'', ''creative'', ''corporate'']"
  shows "create_template template_type = new_template BusinessTemplate
       \<and> create_template template_type = create_template ''business''
       \<and> instance_of (create_template template_type) = BusinessTemplate
       \<and> color_scheme (create_template template_type) = business_blue"
  using assms
  by (simp add: create_template_def templates_def PPTTemplate_init_def COLORS_def)

theorem create_template_unknown_is_business_witness:
  "''busines'' \<notin> set [''business'', ''tech'', ''creative'', ''corporate'']
   \<and> create_template ''busines'' = create_template ''business''
   \<and> instance_of (create_template ''busines'') = BusinessTemplate"
proof -
  have h: "''busines'' \<notin> set [''business'', ''tech'', ''creative'', ''corporate'']"
    by simp
  show ?thesis
    using h create_template_unknown_is_business [OF h]
    by (simp add: create_template_def templates_def)
qed

section \<open>Properties of the relocation of the save call\<close>

lemma prefix_str_in: "prefix n s \<Longrightarrow> str_in n s"
  by (cases s) auto

lemma str_in_append_right: "str_in n s \<Longrightarrow> str_in n (a @ s)"
  by (induction a) auto

lemma str_in_middle: "str_in n (a @ n @ b)"
  by (rule str_in_append_right) (simp add: prefix_str_in)

lemma prefix_before_foreign_char:
  assumes "prefix w (a @ x # t)" and "x \<notin> set w"
  shows "prefix w a"
proof -
  from assms(1) consider "prefix w a" | us where "w = a @ us" "prefix us (x # t)"
    by (auto simp: prefix_append)
  then show ?thesis
  proof cases
    case 1
    then show ?thesis .
  next
    case 2
    with assms(2) show ?thesis by (cases us) auto
  qed
qed


declare re_sub_save.simps(2) [simp del]

lemma re_sub_save_Cons_no_match:
  assumes n: "\<not> prefix ''.save('' (c # cs)"
  shows "re_sub_save r (c # cs) = c # re_sub_save r cs"
  by (subst re_sub_save.simps(2)) (simp only: n if_False)

lemma re_sub_save_Cons_open:
  assumes p: "prefix ''.save('' (c # cs)"
    and d: "dropWhile (\<lambda>x. x \<noteq> CHR '')'') (drop 6 (c # cs)) = []"
  shows "re_sub_save r (c # cs) = c # re_sub_save r cs"
  by (subst re_sub_save.simps(2)) (simp only: p d if_True list.case)

lemma re_sub_save_Cons_match:
  assumes p: "prefix ''.save('' (c # cs)"
    and d: "dropWhile (\<lambda>x. x \<noteq> CHR '')'') (drop 6 (c # cs)) = y # after"
  shows "re_sub_save r (c # cs) = r @ re_sub_save r after"
  by (subst re_sub_save.simps(2)) (simp only: p d if_True list.case)

lemma re_sub_save_no_paren: "CHR '')'' \<notin> set s \<Longrightarrow> re_sub_save r s = s"
proof (induction s)
  case Nil
  show ?case by simp
next
  case (Cons c cs)
  have "\<forall>x \<in> set (drop 6 (c # cs)). x \<noteq> CHR '')''"
    using Cons.prems by (metis in_set_dropD)
  then have d: "dropWhile (\<lambda>x. x \<noteq> CHR '')'') (drop 6 (c # cs)) = []"
    by (simp only: dropWhile_eq_Nil_conv)
  from Cons have ih: "re_sub_save r cs = cs" by simp
  show ?case
  proof (cases "prefix ''.save('' (c # cs)")
    case True
    then show ?thesis by (simp only: re_sub_save_Cons_open [OF True d] ih)
  next
    case False
    then show ?thesis by (simp only: re_sub_save_Cons_no_match [OF False] ih)
  qed
qed

lemma prefix_no_dot_re_sub_save:
  assumes "CHR ''.'' \<notin> set w"
  shows "prefix w (re_sub_save (CHR ''.'' # r) s) \<longleftrightarrow> prefix w s"
  using assms
proof (induction w arbitrary: s)
  case Nil
  show ?case by simp
next
  case (Cons x w)
  from Cons.prems have x: "x \<noteq> CHR ''.''" and w: "CHR ''.'' \<notin> set w" by auto
  have ih: "prefix w (re_sub_save (CHR ''.'' # r) cs) \<longleftrightarrow> prefix w cs" for cs
    using w by (rule Cons.IH)
  show ?case
  proof (cases s)
    case Nil
    then show ?thesis by simp
  next
    case s: (Cons c cs)
    show ?thesis
    proof (cases "prefix ''.save('' (c # cs)")
      case True
      then have c: "c = CHR ''.''" by simp
      show ?thesis
      proof (cases "dropWhile (\<lambda>x. x \<noteq> CHR '')'') (drop 6 (c # cs))")
        case Nil
        have "re_sub_save (CHR ''.'' # r) (c # cs) = c # re_sub_save (CHR ''.'' # r) cs"
          by (rule re_sub_save_Cons_open [OF True Nil])
        then show ?thesis unfolding s using x c by simp
      next
        case (Cons y after)
        have "re_sub_save (CHR ''.'' # r) (c # cs) =
              (CHR ''.'' # r) @ re_sub_save (CHR ''.'' # r) after"
          by (rule re_sub_save_Cons_match [OF True Cons])
        then show ?thesis unfolding s using x c by simp
      qed
    next
      case False
      have "re_sub_save (CHR ''.'' # r) (c # cs) = c # re_sub_save (CHR ''.'' # r) cs"
        by (rule re_sub_save_Cons_no_match [OF False])
      then show ?thesis unfolding s using ih [of cs] by simp
    qed
  qed
qed

lemma save_call_Cons: "save_call P = CHR ''.'' # ''save(r'' @ [CHR 0x22] @ P @ [CHR 0x22] @ '')''"
  by (simp add: save_call_def)

lemma prefix_save_re_sub_save:
  "prefix ''.save('' (re_sub_save (save_call P) s) \<longleftrightarrow> prefix ''.save('' s"
proof (cases s)
  case Nil
  then show ?thesis by simp
next
  case s: (Cons c cs)
  have inner: "prefix ''save('' (re_sub_save (save_call P) cs) \<longleftrightarrow> prefix ''save('' cs"
    unfolding save_call_Cons by (rule prefix_no_dot_re_sub_save) simp
  show ?thesis
  proof (cases "prefix ''.save('' (c # cs)")
    case True
    show ?thesis
    proof (cases "dropWhile (\<lambda>x. x \<noteq> CHR '')'') (drop 6 (c # cs))")
      case Nil
      have "re_sub_save (save_call P) (c # cs) = c # re_sub_save (save_call P) cs"
        by (rule re_sub_save_Cons_open [OF True Nil])
      with True s inner show ?thesis by auto
    next
      case (Cons y after)
      have "re_sub_save (save_call P) (c # cs) = save_call P @ re_sub_save (save_call P) after"
        by (rule re_sub_save_Cons_match [OF True Cons])
      with True s show ?thesis by (simp add: save_call_def)
    qed
  next
    case False
    have "re_sub_save (save_call P) (c # cs) = c # re_sub_save (save_call P) cs"
      by (rule re_sub_save_Cons_no_match [OF False])
    with False s inner show ?thesis by auto
  qed
qed

lemma re_sub_save_after_save_call:
  assumes "CHR '')'' \<notin> set arg"
  shows "re_sub_save r (''.save('' @ arg @ '')'' @ post) = r @ re_sub_save r post"
proof -
  have "dropWhile (\<lambda>x. x \<noteq> CHR '')'') (arg @ CHR '')'' # post) = CHR '')'' # post"
    using assms by (induction arg) auto
  then have d: "dropWhile (\<lambda>x. x \<noteq> CHR '')'')
                  (drop 6 (CHR ''.'' # ''save('' @ arg @ '')'' @ post)) = CHR '')'' # post"
    by simp
  have p: "prefix ''.save('' (CHR ''.'' # ''save('' @ arg @ '')'' @ post)"
    by simp
  have "re_sub_save r (CHR ''.'' # ''save('' @ arg @ '')'' @ post) = r @ re_sub_save r post"
    by (rule re_sub_save_Cons_match [OF p d])
  then show ?thesis by simp
qed

lemma re_sub_save_save_call:
  assumes "CHR '')'' \<notin> set P"
  shows "re_sub_save r (save_call P @ Y) = r @ re_sub_save r Y"
proof -
  have e: "save_call P @ Y = ''.save('' @ (''r'' @ [CHR 0x22] @ P @ [CHR 0x22]) @ '')'' @ Y"
    by (simp add: save_call_def)
  have a: "CHR '')'' \<notin> set (''r'' @ [CHR 0x22] @ P @ [CHR 0x22])"
    using assms by simp
  show ?thesis
    unfolding e by (rule re_sub_save_after_save_call [OF a])
qed

lemma re_sub_save_idem:
  assumes "CHR '')'' \<notin> set P"
  shows "re_sub_save (save_call P) (re_sub_save (save_call P) s) = re_sub_save (save_call P) s"
proof (induction "length s" arbitrary: s rule: less_induct)
  case less
  show ?case
  proof (cases s)
    case Nil
    then show ?thesis by simp
  next
    case s: (Cons c cs)
    show ?thesis
    proof (cases "prefix ''.save('' (c # cs)")
      case True
      then obtain t where t: "c # cs = ''.save('' @ t" by (auto elim: prefixE)
      show ?thesis
      proof (cases "dropWhile (\<lambda>x. x \<noteq> CHR '')'') (drop 6 (c # cs))")
        case Nil
        then have "dropWhile (\<lambda>x. x \<noteq> CHR '')'') t = []"
          unfolding t by simp
        then have "CHR '')'' \<notin> set t"
          by (auto simp: dropWhile_eq_Nil_conv)
        then have "CHR '')'' \<notin> set (''.save('' @ t)" by simp
        then have "re_sub_save (save_call P) s = s"
          unfolding s t by (rule re_sub_save_no_paren)
        then show ?thesis by simp
      next
        case (Cons y after)
        have "length (y # after) \<le> length (drop 6 (c # cs))"
          by (metis Cons length_dropWhile_le)
        then have "length after < length s" using s by simp
        then have ih: "re_sub_save (save_call P) (re_sub_save (save_call P) after) =
                       re_sub_save (save_call P) after"
          by (rule less)
        have e: "re_sub_save (save_call P) s =
                 save_call P @ re_sub_save (save_call P) after"
          unfolding s by (rule re_sub_save_Cons_match [OF True Cons])
        show ?thesis
          by (simp only: e re_sub_save_save_call [OF assms] ih)
      qed
    next
      case False
      have e: "re_sub_save (save_call P) s = c # re_sub_save (save_call P) cs"
        unfolding s by (rule re_sub_save_Cons_no_match [OF False])
      have "prefix ''.save('' (c # re_sub_save (save_call P) cs) \<longleftrightarrow>
            prefix ''.save('' (c # cs)"
        using prefix_save_re_sub_save [of P "c # cs"]
        by (simp only: re_sub_save_Cons_no_match [OF False])
      with False have np: "\<not> prefix ''.save('' (c # re_sub_save (save_call P) cs)"
        by blast
      have ih: "re_sub_save (save_call P) (re_sub_save (save_call P) cs) =
                re_sub_save (save_call P) cs"
        using s by (intro less) simp
      show ?thesis
        by (simp only: e re_sub_save_Cons_no_match [OF np] ih)
    qed
  qed
qed

lemma str_in_re_sub_save:
  "str_in ''.save('' s \<Longrightarrow> str_in ''.save('' (re_sub_save (save_call P) s)"
proof (induction s)
  case Nil
  then show ?case by simp
next
  case (Cons c cs)
  show ?case
  proof (cases "prefix ''.save('' (c # cs)")
    case True
    then have "prefix ''.save('' (re_sub_save (save_call P) (c # cs))"
      by (simp only: prefix_save_re_sub_save)
    then show ?thesis by (rule prefix_str_in)
  next
    case False
    with Cons.prems have "str_in ''.save('' cs" by auto
    then have "str_in ''.save('' (re_sub_save (save_call P) cs)" by (rule Cons.IH)
    then have "str_in ''.save('' (c # re_sub_save (save_call P) cs)" by simp
    then show ?thesis by (simp only: re_sub_save_Cons_no_match [OF False])
  qed
qed

lemma re_sub_save_skip_to_char:
  assumes "\<not> str_in ''.save('' a" and "x \<notin> set ''.save(''"
  shows "re_sub_save r (a @ x # t) = a @ re_sub_save r (x # t)"
  using assms(1)
proof (induction a)
  case Nil
  show ?case by simp
next
  case (Cons c cs)
  from Cons.prems have n: "\<not> prefix ''.save('' (c # cs)" and rest: "\<not> str_in ''.save('' cs"
    by simp_all
  have "\<not> prefix ''.save('' (c # (cs @ x # t))"
    using n prefix_before_foreign_char [of "''.save(''" "c # cs" x t] assms(2) by auto
  then have "re_sub_save r (c # (cs @ x # t)) = c # re_sub_save r (cs @ x # t)"
    by (rule re_sub_save_Cons_no_match)
  with Cons.IH [OF rest] show ?case by simp
qed


lemma re_sub_save_appended:
  assumes "CHR '')'' \<notin> set P"
  shows "re_sub_save r (''\<newline>\<newline># Save the presentation\<newline>prs'' @ save_call P) =
         ''\<newline>\<newline># Save the presentation\<newline>prs'' @ r"
  using re_sub_save_save_call [OF assms, of r "[]"]
  by (simp add: re_sub_save_Cons_no_match)

lemma relocate_save_idem:
  assumes "CHR '')'' \<notin> set P"
  shows "relocate_save P (relocate_save P code) = relocate_save P code"
proof (cases "str_in ''.save('' code")
  case True
  then have "str_in ''.save('' (re_sub_save (save_call P) code)"
    by (rule str_in_re_sub_save)
  with True show ?thesis
    by (simp add: relocate_save_def re_sub_save_idem [OF assms])
next
  case False
  have "str_in ''.save('' (code @ ''\<newline>\<newline># Save the presentation\<newline>prs'' @ save_call P)"
    using str_in_middle [of "''.save(''" "code @ ''\<newline>\<newline># Save the presentation\<newline>prs''"
        "''r'' @ [CHR 0x22] @ P @ [CHR 0x22] @ '')''"]
    by (simp add: save_call_def)
  moreover have "re_sub_save (save_call P)
           (code @ ''\<newline>\<newline># Save the presentation\<newline>prs'' @ save_call P) =
         code @ ''\<newline>\<newline># Save the presentation\<newline>prs'' @ save_call P"
    using re_sub_save_skip_to_char [OF False, of "CHR ''\<newline>''" "save_call P"
        "''\<newline># Save the presentation\<newline>prs'' @ save_call P"]
      re_sub_save_appended [OF assms, of "save_call P"]
    by simp
  ultimately show ?thesis
    using False by (simp add: relocate_save_def)
qed


text \<open>The paths of the examples.\<close>

lemma output_path_example:
  "output_path_text ''/srv/p'' ''deck'' = ''/srv/p/presentations/deck.pptx''"
  by (simp add: output_path_text_def output_path_def parse_path_def joinpath_def path_str_def
      endswith_def replace_backslash_def Let_def)

lemma code_file_example: "code_file_path ''/srv/p'' = ''/srv/p/code/generate_ppt.py''"
  by (simp add: code_file_path_def parse_path_def joinpath_def path_str_def Let_def)

lemma project_path_example: "path_str (parse_path ''/srv/p'') = ''/srv/p''"
  by (simp add: parse_path_def path_str_def)

lemma output_path_str_example:
  "path_str (output_path ''/srv/p'' ''deck'') = ''/srv/p/presentations/deck.pptx''"
  by (simp add: output_path_def parse_path_def joinpath_def path_str_def endswith_def Let_def)

lemma project_folder_example:
  "path_str (project_folder_path example_env ''AI (intro)'') =
     ''/srv/generated_presentations/ppt_presentation_AI (intro)_20250101_120000_3f2a9c1e''"
  by (simp add: project_folder_path_def example_env_def parse_path_def joinpath_def
      path_str_def Let_def)

lemma output_path_paren_example:
  "output_path_text (path_str (project_folder_path example_env ''AI (intro)'')) ''deck'' =
   ''/srv/generated_presentations/ppt_presentation_AI (intro)_20250101_120000_3f2a9c1e/presentations/deck.pptx''"
  unfolding project_folder_example
  by (simp add: output_path_text_def output_path_def parse_path_def joinpath_def path_str_def
      endswith_def replace_backslash_def Let_def)

text \<open>
  Claim C8, as the code has it. When the output path has no closing parenthesis,
  relocating the save call twice gives the same text as relocating it once, whatever the
  source text is; and a source without the text \<^verbatim>\<open>.save(\<close> gets exactly one save call
  appended, which targets the output path. The pattern stops at the first closing
  parenthesis, so a path that contains one is cut there by the second pass: for the
  project folder of the topic \<^verbatim>\<open>AI (intro)\<close> the second pass changes the text again.
\<close>

theorem relocate_save_idempotent_without_paren:
  assumes "CHR '')'' \<notin> set output_path_str"
  shows "relocate_save output_path_str (relocate_save output_path_str code) =
           relocate_save output_path_str code
       \<and> (\<not> str_in ''.save('' code \<longrightarrow>
            relocate_save output_path_str code =
              code @ ''\<newline>\<newline># Save the presentation\<newline>prs.save(r'' @ [CHR 0x22] @
              output_path_str @ [CHR 0x22] @ '')'')"
  using relocate_save_idem [OF assms, of code]
  by (simp add: relocate_save_def save_call_def)

theorem relocate_save_idempotent_without_paren_witness:
  "CHR '')'' \<notin> set (output_path_text ''/srv/p'' ''deck'')
   \<and> \<not> str_in ''.save('' ''x = 1''
   \<and> relocate_save (output_path_text ''/srv/p'' ''deck'')
        (relocate_save (output_path_text ''/srv/p'' ''deck'') ''x = 1'') =
       relocate_save (output_path_text ''/srv/p'' ''deck'') ''x = 1''
   \<and> relocate_save (output_path_text ''/srv/p'' ''deck'') ''x = 1'' =
       ''x = 1'' @ ''\<newline>\<newline># Save the presentation\<newline>prs.save(r'' @ [CHR 0x22] @
       output_path_text ''/srv/p'' ''deck'' @ [CHR 0x22] @ '')''"
proof -
  have h: "CHR '')'' \<notin> set (output_path_text ''/srv/p'' ''deck'')"
    by (simp add: output_path_example)
  have n: "\<not> str_in ''.save('' ''x = 1''"
    by simp
  from h n relocate_save_idempotent_without_paren [OF h, of "''x = 1''"]
  show ?thesis by blast
qed

theorem relocate_save_paren_counterexample:
  "relocate_save
     (output_path_text (path_str (project_folder_path example_env ''AI (intro)'')) ''deck'')
     (relocate_save
        (output_path_text (path_str (project_folder_path example_env ''AI (intro)'')) ''deck'')
        ''x = 1'') \<noteq>
   relocate_save
     (output_path_text (path_str (project_folder_path example_env ''AI (intro)'')) ''deck'')
     ''x = 1''"
  unfolding output_path_paren_example
  by (simp add: relocate_save_def save_call_def re_sub_save.simps(2))

section \<open>Properties of the workspace\<close>

















section \<open>Properties of the executor\<close>

lemma execute_reaches_child:
  assumes "\<not> str_in ''from ppt_templates import''
             (relocate_save (output_path_text project_folder filename) code)"
    and "write_error env (code_file_path project_folder) = None"
  shows "execute_ppt_code_try env code project_folder filename w =
           run_and_report env (code_file_path project_folder)
             (path_str (parse_path project_folder))
             (path_str (output_path project_folder filename))
             (logger_info (''Executing PowerPoint code in '' @ code_file_path project_folder)
               (w\<lparr>files := (files w)
                  (code_file_path project_folder \<mapsto>
                   relocate_save (output_path_text project_folder filename) code)\<rparr>))"
  using assms
  by (simp add: execute_ppt_code_try_def Let_def copy_template_to_project_def
      copy_template_to_code_dir_def write_file_def add_path_setup_def)

text \<open>
  Claim C5, as the code has it. For a source that does not import the template module
  and whose file can be written, the result of \<open>execute_ppt_code\<close> is decided by the
  outcome of the child process, and every outcome is covered. Exit code 0 with the
  artifact present gives \<^verbatim>\<open>success\<close> with the path of the artifact; exit code 0 with the
  artifact absent gives \<^verbatim>\<open>warning\<close> with an empty path; any other exit code gives
  \<^verbatim>\<open>error\<close> with the captured standard error, or with the captured standard output when
  the standard error is empty; a timeout gives \<^verbatim>\<open>error\<close> with the message that the
  execution timed out; any other exception of the call gives \<^verbatim>\<open>error\<close> with its text.
  The source that prints \<^verbatim>\<open>boom\<close> and leaves with \<^verbatim>\<open>sys.exit(1)\<close> shows that the error is
  not always the captured standard error: its standard error is empty, and the error of
  the result is the line it printed.
\<close>

theorem execute_classification:
  assumes "\<not> str_in ''from ppt_templates import''
             (relocate_save (output_path_text project_folder filename) code)"
    and "write_error env (code_file_path project_folder) = None"
    and "run_child env (code_file_path project_folder) (path_str (parse_path project_folder))
           (logger_info (''Executing PowerPoint code in '' @ code_file_path project_folder)
               (w\<lparr>files := (files w)
                  (code_file_path project_folder \<mapsto>
                   relocate_save (output_path_text project_folder filename) code)\<rparr>))
         = (outcome, w')"
  shows "(case outcome of
            Completed returncode stdout stderr \<Rightarrow>
              if returncode = 0 then
                if path_exists w' (path_str (output_path project_folder filename)) then
                  status (fst (execute_ppt_code env code project_folder filename w)) = ''success''
                  \<and> ppt_path (fst (execute_ppt_code env code project_folder filename w)) =
                      path_str (output_path project_folder filename)
                else
                  status (fst (execute_ppt_code env code project_folder filename w)) = ''warning''
                  \<and> ppt_path (fst (execute_ppt_code env code project_folder filename w)) = []
              else
                status (fst (execute_ppt_code env code project_folder filename w)) = ''error''
                \<and> ppt_path (fst (execute_ppt_code env code project_folder filename w)) = []
                \<and> error (fst (execute_ppt_code env code project_folder filename w)) =
                    Some (if stderr \<noteq> [] then stderr else stdout)
          | TimeoutExpired \<Rightarrow>
              status (fst (execute_ppt_code env code project_folder filename w)) = ''error''
              \<and> ppt_path (fst (execute_ppt_code env code project_folder filename w)) = []
              \<and> message (fst (execute_ppt_code env code project_folder filename w)) =
                  ''PowerPoint code execution timed out (>2 minutes)''
          | ProcessError e \<Rightarrow>
              status (fst (execute_ppt_code env code project_folder filename w)) = ''error''
              \<and> message (fst (execute_ppt_code env code project_folder filename w)) =
                  ''Error executing PowerPoint code: '' @ e)"
  using assms(3)
  by (simp add: execute_ppt_code_def execute_reaches_child [OF assms(1,2)]
      run_and_report_def report_completed_def Let_def split: proc_outcome.splits)

lemma relocated_exits_clean:
  "relocate_save (output_path_text ''/srv/p'' ''deck'') ''import sys\<newline>sys.exit(0)'' =
     exits_clean_program"
  unfolding output_path_example
  by (simp add: relocate_save_def save_call_def exits_clean_program_def)

lemma relocated_prints_and_fails:
  \<open>relocate_save (output_path_text ''/srv/p'' ''deck'')
     ''import sys\<newline>print("boom")\<newline>sys.exit(1)'' = prints_and_fails_program\<close>
  unfolding output_path_example
  by (simp add: relocate_save_def save_call_def prints_and_fails_program_def)

theorem execute_classification_witness:
  "\<not> str_in ''from ppt_templates import''
       (relocate_save (output_path_text ''/srv/p'' ''deck'') ''import sys\<newline>sys.exit(0)'')
   \<and> write_error example_env (code_file_path ''/srv/p'') = None
   \<and> files (snd (execute_ppt_code example_env ''import sys\<newline>sys.exit(0)'' ''/srv/p'' ''deck''
                     example_project)) ''/srv/p/code/generate_ppt.py'' =
       Some exits_clean_program
   \<and> status (fst (execute_ppt_code example_env ''import sys\<newline>sys.exit(0)'' ''/srv/p'' ''deck''
                     example_project)) = ''warning''
   \<and> ppt_path (fst (execute_ppt_code example_env ''import sys\<newline>sys.exit(0)'' ''/srv/p'' ''deck''
                       example_project)) = []"
proof -
  let ?cf = "code_file_path ''/srv/p''"
  let ?code1 = "relocate_save (output_path_text ''/srv/p'' ''deck'') ''import sys\<newline>sys.exit(0)''"
  let ?w4 = "logger_info (''Executing PowerPoint code in '' @ ?cf)
               (example_project\<lparr>files := (files example_project)(?cf \<mapsto> ?code1)\<rparr>)"
  have h1: "\<not> str_in ''from ppt_templates import'' ?code1"
    unfolding relocated_exits_clean by (simp add: exits_clean_program_def)
  have h2: "write_error example_env ?cf = None"
    by (simp add: example_env_def)
  have h3: "run_child example_env ?cf (path_str (parse_path ''/srv/p'')) ?w4 =
              (Completed 0 [] [], ?w4)"
    unfolding relocated_exits_clean
    by (simp add: example_env_def example_child_def logger_info_def)
  have absent: "\<not> path_exists ?w4 (path_str (output_path ''/srv/p'' ''deck''))"
    unfolding output_path_str_example code_file_example
    by (simp add: path_exists_def logger_info_def example_project_def)
  from execute_classification [OF h1 h2 h3] absent
  have r: "status (fst (execute_ppt_code example_env ''import sys\<newline>sys.exit(0)'' ''/srv/p''
                          ''deck'' example_project)) = ''warning''
   \<and> ppt_path (fst (execute_ppt_code example_env ''import sys\<newline>sys.exit(0)'' ''/srv/p''
                       ''deck'' example_project)) = []"
    by simp
  have f: "files (snd (execute_ppt_code example_env ''import sys\<newline>sys.exit(0)'' ''/srv/p''
                         ''deck'' example_project)) ''/srv/p/code/generate_ppt.py'' =
       Some exits_clean_program"
    using h3 absent
    unfolding execute_ppt_code_def execute_reaches_child [OF h1 h2] run_and_report_def
      relocated_exits_clean code_file_example
    by (simp add: report_completed_def logger_warning_def logger_info_def)
  from h1 h2 r f show ?thesis by blast
qed

theorem execute_nonzero_exit_counterexample:
  \<open>files (snd (execute_ppt_code example_env
       ''import sys\<newline>print("boom")\<newline>sys.exit(1)'' ''/srv/p'' ''deck'' example_project))
       ''/srv/p/code/generate_ppt.py'' = Some prints_and_fails_program
   \<and> run_child example_env ''/srv/p/code/generate_ppt.py'' ''/srv/p''
        (snd (execute_ppt_code example_env
           ''import sys\<newline>print("boom")\<newline>sys.exit(1)'' ''/srv/p'' ''deck'' example_project)) =
       (Completed 1 ''boom\<newline>'' [],
        snd (execute_ppt_code example_env
           ''import sys\<newline>print("boom")\<newline>sys.exit(1)'' ''/srv/p'' ''deck'' example_project))
   \<and> status (fst (execute_ppt_code example_env
       ''import sys\<newline>print("boom")\<newline>sys.exit(1)'' ''/srv/p'' ''deck'' example_project)) =
       ''error''
   \<and> error (fst (execute_ppt_code example_env
       ''import sys\<newline>print("boom")\<newline>sys.exit(1)'' ''/srv/p'' ''deck'' example_project)) =
       Some ''boom\<newline>''
   \<and> error (fst (execute_ppt_code example_env
       ''import sys\<newline>print("boom")\<newline>sys.exit(1)'' ''/srv/p'' ''deck'' example_project)) \<noteq>
       Some []\<close>
proof -
  let ?cf = "code_file_path ''/srv/p''"
  have h1: \<open>\<not> str_in ''from ppt_templates import''
      (relocate_save (output_path_text ''/srv/p'' ''deck'')
         ''import sys\<newline>print("boom")\<newline>sys.exit(1)'')\<close>
    unfolding relocated_prints_and_fails by (simp add: prints_and_fails_program_def)
  have h2: "write_error example_env ?cf = None"
    by (simp add: example_env_def)
  have distinct: "prints_and_fails_program \<noteq> exits_clean_program"
    by (simp add: prints_and_fails_program_def exits_clean_program_def)
  show ?thesis
    unfolding execute_ppt_code_def execute_reaches_child [OF h1 h2] run_and_report_def
      relocated_prints_and_fails code_file_example project_path_example
      output_path_str_example
    using distinct
    by (simp add: example_env_def example_child_def report_completed_def logger_info_def
        logger_error_def Let_def)
qed

text \<open>
  A source that imports the template module never reaches the child process: either the
  module is missing and the tool returns an error, or the first copy succeeds and the
  guard of the second copy raises.
\<close>

lemma execute_template_import_is_error:
  assumes "str_in ''from ppt_templates import''
             (relocate_save (output_path_text project_folder filename) code)"
  shows "status (fst (execute_ppt_code env code project_folder filename w)) = ''error''
       \<and> ppt_path (fst (execute_ppt_code env code project_folder filename w)) = []"
  using assms
  by (simp add: execute_ppt_code_def execute_ppt_code_try_def Let_def
      copy_template_to_project_def copy_template_to_code_dir_def copy2_def
      split: option.splits)

text \<open>
  Claim C2 says that a source importing the design-system module has the module copied
  into the execution directories and is then run, and that the copying does not make the
  executor fail when the module exists. The code does otherwise. With the module present
  at its source location, the executor copies it into the project directory, and then
  fails on the guard of the copy into the \<^verbatim>\<open>code\<close> directory: the result is an error with
  the text of the \<^verbatim>\<open>AttributeError\<close>, the source file is never written and the child is
  never started.
\<close>

theorem execute_template_source_fails:
  \<open>status (fst (execute_ppt_code example_env
       ''from ppt_templates import create_template\<newline>ppt = create_template("business")\<newline>ppt.save("deck.pptx")''
       ''/srv/p'' ''deck''
       (example_world\<lparr>files := [template_source \<mapsto> ''# design system'']\<rparr>))) = ''error''
   \<and> message (fst (execute_ppt_code example_env
       ''from ppt_templates import create_template\<newline>ppt = create_template("business")\<newline>ppt.save("deck.pptx")''
       ''/srv/p'' ''deck''
       (example_world\<lparr>files := [template_source \<mapsto> ''# design system'']\<rparr>))) =
       ''Error executing PowerPoint code: '' @ attribute_error
   \<and> files (snd (execute_ppt_code example_env
       ''from ppt_templates import create_template\<newline>ppt = create_template("business")\<newline>ppt.save("deck.pptx")''
       ''/srv/p'' ''deck''
       (example_world\<lparr>files := [template_source \<mapsto> ''# design system'']\<rparr>)))
       ''/srv/p/code/generate_ppt.py'' = None
   \<and> files (snd (execute_ppt_code example_env
       ''from ppt_templates import create_template\<newline>ppt = create_template("business")\<newline>ppt.save("deck.pptx")''
       ''/srv/p'' ''deck''
       (example_world\<lparr>files := [template_source \<mapsto> ''# design system'']\<rparr>)))
       ''/srv/p/ppt_templates.py'' = Some ''# design system''\<close>
  unfolding execute_ppt_code_def execute_ppt_code_try_def Let_def output_path_example
    code_file_example output_path_str_example
  by (simp add: example_env_def example_world_def
      relocate_save_def save_call_def re_sub_save.simps(2) copy_template_to_project_def
      copy_template_to_code_dir_def copy2_def path_exists_def template_source_def
      logger_info_def logger_error_def parse_path_def joinpath_def path_str_def Let_def)

section \<open>Properties of the driver\<close>

text \<open>
  What one item of the stream does to the latest outputs and to the workflow log, and what
  the whole stream does: the latest output of an agent depends on the items of that agent
  only.
\<close>

lemma tracked_outputs_track_item:
  "tracked_outputs (track_item clock item t) k =
     (case snd item of
        Some (m # ms) \<Rightarrow> if k = fst item then Some (last (m # ms)) else tracked_outputs t k
      | _ \<Rightarrow> tracked_outputs t k)"
  by (cases item) (simp add: track_item_def Let_def split: option.splits list.splits)

lemma tracked_log_track_item:
  "tracked_log (track_item clock item t) =
     tracked_log t @
     (case snd item of
        Some (m # ms) \<Rightarrow>
          [\<lparr>agent = fst item, content = last (m # ms),
            entry_timestamp = clock (length (tracked_log t))\<rparr>]
      | _ \<Rightarrow> [])"
  by (cases item) (simp add: track_item_def Let_def split: option.splits list.splits)

lemma fold_outputs_filter:
  assumes "tracked_outputs t k = tracked_outputs t' k"
  shows "tracked_outputs (fold (track_item clock) items t) k =
         tracked_outputs (fold (track_item clock') (filter (\<lambda>item. fst item = k) items) t') k"
  using assms
proof (induction items arbitrary: t t')
  case Nil
  then show ?case by simp
next
  case (Cons item items)
  show ?case
  proof (cases "fst item = k")
    case True
    have "tracked_outputs (track_item clock item t) k = tracked_outputs (track_item clock' item t') k"
      using Cons.prems by (simp add: tracked_outputs_track_item split: option.splits list.splits)
    then have "tracked_outputs (fold (track_item clock) items (track_item clock item t)) k =
               tracked_outputs (fold (track_item clock')
                 (filter (\<lambda>item. fst item = k) items) (track_item clock' item t')) k"
      by (rule Cons.IH)
    with True show ?thesis by simp
  next
    case False
    then have "tracked_outputs (track_item clock item t) k = tracked_outputs t' k"
      using Cons.prems by (simp add: tracked_outputs_track_item split: option.splits list.splits)
    then have "tracked_outputs (fold (track_item clock) items (track_item clock item t)) k =
               tracked_outputs (fold (track_item clock')
                 (filter (\<lambda>item. fst item = k) items) t') k"
      by (rule Cons.IH)
    with False show ?thesis by simp
  qed
qed

lemma success_generate:
  "success (fst (generate_powerpoint_presentation supervisor uuid clock topic thread_id
                   email_recipient w)) =
     (raised (supervisor (input_message topic email_recipient)
                (case thread_id of None \<Rightarrow> take 8 uuid | Some t \<Rightarrow> t)) = None
      \<and> is_successful
          (get_output
             (tracked_outputs
                (track_events clock
                   (events (supervisor (input_message topic email_recipient)
                      (case thread_id of None \<Rightarrow> take 8 uuid | Some t \<Rightarrow> t)))
                   \<lparr>tracked_log = [], tracked_outputs = Map.empty,
                    tracked_world =
                      logger_info (replicate 60 CHR ''='')
                        (logger_info
                           (''Starting PowerPoint presentation generation for topic: '' @ topic)
                           w)\<rparr>))
             ''ppt_executor_agent''))"
  by (simp add: generate_powerpoint_presentation_def Let_def split: option.splits)

lemma email_sent_generate:
  "email_sent (fst (generate_powerpoint_presentation supervisor uuid clock topic thread_id
                      email_recipient w)) =
     (case raised (supervisor (input_message topic email_recipient)
                     (case thread_id of None \<Rightarrow> take 8 uuid | Some t \<Rightarrow> t)) of
        Some e \<Rightarrow> None
      | None \<Rightarrow>
          Some (email_was_sent
            (get_output
               (tracked_outputs
                  (track_events clock
                     (events (supervisor (input_message topic email_recipient)
                        (case thread_id of None \<Rightarrow> take 8 uuid | Some t \<Rightarrow> t)))
                     \<lparr>tracked_log = [], tracked_outputs = Map.empty,
                      tracked_world =
                        logger_info (replicate 60 CHR ''='')
                          (logger_info
                             (''Starting PowerPoint presentation generation for topic: '' @ topic)
                             w)\<rparr>))
               ''email_sender_agent'')))"
  by (simp add: generate_powerpoint_presentation_def Let_def split: option.splits)

text \<open>
  Claim C6, as the code has it. Take two runs of the supervisor on the same request that
  differ at most in what the email agent answered: the items of all other agents are the
  same, in the same order, and both streams end the same way (both without an exception,
  or both with one). Then the driver computes the same success flag for both, whatever the
  clocks and the worlds are; and the delivery is recorded in the separate field
  \<open>email_sent\<close>, which in turn is the same for two such runs whenever the items of the
  email agent are the same. In the first example below the email fails, \<open>email_sent\<close> is
  false and the success flag is true all the same. The success flag is not independent of
  an exception in the delivery stage: when the stream raises while the email agent is at
  work, the \<^verbatim>\<open>except\<close> clause of the driver returns a false success flag although the
  executor had reported success, as the second example shows.
\<close>

theorem success_independent_of_delivery:
  assumes "filter (\<lambda>item. fst item \<noteq> ''email_sender_agent'')
             (concat (events (supervisor1 (input_message topic email_recipient)
                (case thread_id of None \<Rightarrow> take 8 uuid | Some t \<Rightarrow> t)))) =
           filter (\<lambda>item. fst item \<noteq> ''email_sender_agent'')
             (concat (events (supervisor2 (input_message topic email_recipient)
                (case thread_id of None \<Rightarrow> take 8 uuid | Some t \<Rightarrow> t))))"
    and "raised (supervisor1 (input_message topic email_recipient)
                (case thread_id of None \<Rightarrow> take 8 uuid | Some t \<Rightarrow> t)) =
         raised (supervisor2 (input_message topic email_recipient)
                (case thread_id of None \<Rightarrow> take 8 uuid | Some t \<Rightarrow> t))"
  shows "success (fst (generate_powerpoint_presentation supervisor1 uuid clock1 topic thread_id
                         email_recipient w1)) =
         success (fst (generate_powerpoint_presentation supervisor2 uuid clock2 topic thread_id
                         email_recipient w2))
       \<and> (filter (\<lambda>item. fst item = ''email_sender_agent'')
             (concat (events (supervisor1 (input_message topic email_recipient)
                (case thread_id of None \<Rightarrow> take 8 uuid | Some t \<Rightarrow> t)))) =
           filter (\<lambda>item. fst item = ''email_sender_agent'')
             (concat (events (supervisor2 (input_message topic email_recipient)
                (case thread_id of None \<Rightarrow> take 8 uuid | Some t \<Rightarrow> t)))) \<longrightarrow>
           email_sent (fst (generate_powerpoint_presentation supervisor1 uuid clock1 topic
                              thread_id email_recipient w1)) =
           email_sent (fst (generate_powerpoint_presentation supervisor2 uuid clock2 topic
                              thread_id email_recipient w2)))"
proof -
  let ?th = "case thread_id of None \<Rightarrow> take 8 uuid | Some t \<Rightarrow> t"
  let ?i1 = "concat (events (supervisor1 (input_message topic email_recipient) ?th))"
  let ?i2 = "concat (events (supervisor2 (input_message topic email_recipient) ?th))"
  let ?k = "''ppt_executor_agent''"
  have sel: "filter (\<lambda>item. fst item = ?k) xs =
             filter (\<lambda>item. fst item = ?k)
               (filter (\<lambda>item. fst item \<noteq> ''email_sender_agent'') xs)"
    for xs :: "(string \<times> string list option) list"
    by (induction xs) auto
  have same: "filter (\<lambda>item. fst item = ?k) ?i1 = filter (\<lambda>item. fst item = ?k) ?i2"
    using assms(1) sel [of ?i1] sel [of ?i2] by simp
  have out: "tracked_outputs (fold (track_item clock1) ?i1 t1) ?k =
             tracked_outputs (fold (track_item clock2) ?i2 t2) ?k"
    if "tracked_outputs t1 ?k = tracked_outputs t2 ?k" for t1 t2
  proof -
    have "tracked_outputs (fold (track_item clock1) ?i1 t1) ?k =
          tracked_outputs (fold (track_item clock2) (filter (\<lambda>item. fst item = ?k) ?i1) t2) ?k"
      using that by (rule fold_outputs_filter)
    also have "\<dots> = tracked_outputs (fold (track_item clock2) ?i2 t2) ?k"
      unfolding same by (rule fold_outputs_filter [symmetric]) simp
    finally show ?thesis .
  qed
  let ?t1 = "\<lparr>tracked_log = [], tracked_outputs = Map.empty,
              tracked_world =
                logger_info (replicate 60 CHR ''='')
                  (logger_info
                     (''Starting PowerPoint presentation generation for topic: '' @ topic)
                     w1)\<rparr>"
  let ?t2 = "\<lparr>tracked_log = [], tracked_outputs = Map.empty,
              tracked_world =
                logger_info (replicate 60 CHR ''='')
                  (logger_info
                     (''Starting PowerPoint presentation generation for topic: '' @ topic)
                     w2)\<rparr>"
  have "tracked_outputs (fold (track_item clock1) ?i1 ?t1) ?k =
        tracked_outputs (fold (track_item clock2) ?i2 ?t2) ?k"
    by (rule out) simp
  then have a: "success (fst (generate_powerpoint_presentation supervisor1 uuid clock1 topic
                                thread_id email_recipient w1)) =
         success (fst (generate_powerpoint_presentation supervisor2 uuid clock2 topic thread_id
                         email_recipient w2))"
    by (simp only: success_generate track_events_def get_output_def assms(2))
  have b: "email_sent (fst (generate_powerpoint_presentation supervisor1 uuid clock1 topic
                              thread_id email_recipient w1)) =
           email_sent (fst (generate_powerpoint_presentation supervisor2 uuid clock2 topic
                              thread_id email_recipient w2))"
    if mail: "filter (\<lambda>item. fst item = ''email_sender_agent'') ?i1 =
              filter (\<lambda>item. fst item = ''email_sender_agent'') ?i2"
  proof -
    have "tracked_outputs (fold (track_item clock1) ?i1 ?t1) ''email_sender_agent'' =
          tracked_outputs (fold (track_item clock2)
            (filter (\<lambda>item. fst item = ''email_sender_agent'') ?i1) ?t2) ''email_sender_agent''"
      by (rule fold_outputs_filter) simp
    also have "\<dots> = tracked_outputs (fold (track_item clock2) ?i2 ?t2) ''email_sender_agent''"
      unfolding mail by (rule fold_outputs_filter [symmetric]) simp
    finally show ?thesis
      by (simp only: email_sent_generate track_events_def get_output_def assms(2))
  qed
  from a b show ?thesis by blast
qed

theorem success_independent_of_delivery_witness:
  "filter (\<lambda>item. fst item \<noteq> ''email_sender_agent'')
     (concat (events (example_supervisor ''Email sent successfully''
        (input_message ''Solar Energy'' (Some ''a@b.com''))
        (case Some ''t1'' of None \<Rightarrow> take 8 (uuid4 example_env) | Some t \<Rightarrow> t)))) =
   filter (\<lambda>item. fst item \<noteq> ''email_sender_agent'')
     (concat (events (example_supervisor ''Failed to send email''
        (input_message ''Solar Energy'' (Some ''a@b.com''))
        (case Some ''t1'' of None \<Rightarrow> take 8 (uuid4 example_env) | Some t \<Rightarrow> t))))
   \<and> success (fst (generate_powerpoint_presentation (example_supervisor ''Email sent successfully'')
         (uuid4 example_env) example_clock ''Solar Energy'' (Some ''t1'') (Some ''a@b.com'')
         example_world)) =
       success (fst (generate_powerpoint_presentation (example_supervisor ''Failed to send email'')
         (uuid4 example_env) example_clock ''Solar Energy'' (Some ''t1'') (Some ''a@b.com'')
         example_world))
   \<and> success (fst (generate_powerpoint_presentation (example_supervisor ''Failed to send email'')
         (uuid4 example_env) example_clock ''Solar Energy'' (Some ''t1'') (Some ''a@b.com'')
         example_world))
   \<and> email_sent (fst (generate_powerpoint_presentation (example_supervisor ''Failed to send email'')
         (uuid4 example_env) example_clock ''Solar Energy'' (Some ''t1'') (Some ''a@b.com'')
         example_world)) = Some False
   \<and> email_sent (fst (generate_powerpoint_presentation (example_supervisor ''Email sent successfully'')
         (uuid4 example_env) example_clock ''Solar Energy'' (Some ''t1'') (Some ''a@b.com'')
         example_world)) = Some True"
proof -
  have h1: "filter (\<lambda>item. fst item \<noteq> ''email_sender_agent'')
     (concat (events (example_supervisor ''Email sent successfully''
        (input_message ''Solar Energy'' (Some ''a@b.com''))
        (case Some ''t1'' of None \<Rightarrow> take 8 (uuid4 example_env) | Some t \<Rightarrow> t)))) =
   filter (\<lambda>item. fst item \<noteq> ''email_sender_agent'')
     (concat (events (example_supervisor ''Failed to send email''
        (input_message ''Solar Energy'' (Some ''a@b.com''))
        (case Some ''t1'' of None \<Rightarrow> take 8 (uuid4 example_env) | Some t \<Rightarrow> t))))"
    by (simp add: example_supervisor_def)
  have h2: "raised (example_supervisor ''Email sent successfully''
        (input_message ''Solar Energy'' (Some ''a@b.com''))
        (case Some ''t1'' of None \<Rightarrow> take 8 (uuid4 example_env) | Some t \<Rightarrow> t)) =
      raised (example_supervisor ''Failed to send email''
        (input_message ''Solar Energy'' (Some ''a@b.com''))
        (case Some ''t1'' of None \<Rightarrow> take 8 (uuid4 example_env) | Some t \<Rightarrow> t))"
    by (simp add: example_supervisor_def)
  note eq = success_independent_of_delivery
      [where ?supervisor1.0 = "example_supervisor ''Email sent successfully''"
         and ?supervisor2.0 = "example_supervisor ''Failed to send email''"
         and topic = "''Solar Energy''" and email_recipient = "Some ''a@b.com''"
         and thread_id = "Some ''t1''" and uuid = "uuid4 example_env"
         and ?clock1.0 = example_clock and ?clock2.0 = example_clock
         and ?w1.0 = example_world and ?w2.0 = example_world, OF h1 h2]
  have ok: "success (fst (generate_powerpoint_presentation (example_supervisor ''Failed to send email'')
         (uuid4 example_env) example_clock ''Solar Energy'' (Some ''t1'') (Some ''a@b.com'')
         example_world))"
    by (simp add: generate_powerpoint_presentation_def Let_def example_supervisor_def
        track_events_def track_item_def get_output_def is_successful_def
        success_indicators_def lower_def)
  have e1: "email_sent (fst (generate_powerpoint_presentation (example_supervisor ''Failed to send email'')
         (uuid4 example_env) example_clock ''Solar Energy'' (Some ''t1'') (Some ''a@b.com'')
         example_world)) = Some False"
    by (simp add: generate_powerpoint_presentation_def Let_def example_supervisor_def
        track_events_def track_item_def get_output_def email_was_sent_def check_mark_def)
  have e2: "email_sent (fst (generate_powerpoint_presentation (example_supervisor ''Email sent successfully'')
         (uuid4 example_env) example_clock ''Solar Energy'' (Some ''t1'') (Some ''a@b.com'')
         example_world)) = Some True"
    by (simp add: generate_powerpoint_presentation_def Let_def example_supervisor_def
        track_events_def track_item_def get_output_def email_was_sent_def check_mark_def)
  from h1 eq ok e1 e2 show ?thesis by blast
qed

theorem success_lost_when_delivery_raises_counterexample:
  "filter (\<lambda>item. fst item \<noteq> ''email_sender_agent'')
     (concat (events (example_supervisor ''Email sent successfully''
        (input_message ''Solar Energy'' (Some ''a@b.com'')) ''t1''))) =
   filter (\<lambda>item. fst item \<noteq> ''email_sender_agent'')
     (concat (events (example_supervisor_email_raises
        (input_message ''Solar Energy'' (Some ''a@b.com'')) ''t1'')))
   \<and> success (fst (generate_powerpoint_presentation (example_supervisor ''Email sent successfully'')
         (uuid4 example_env) example_clock ''Solar Energy'' (Some ''t1'') (Some ''a@b.com'')
         example_world))
   \<and> \<not> success (fst (generate_powerpoint_presentation example_supervisor_email_raises
         (uuid4 example_env) example_clock ''Solar Energy'' (Some ''t1'') (Some ''a@b.com'')
         example_world))"
  by (simp add: generate_powerpoint_presentation_def Let_def example_supervisor_def
      example_supervisor_email_raises_def track_events_def track_item_def get_output_def
      is_successful_def success_indicators_def lower_def)

end
